theory Spec2Isabelle
  imports Complex_Main
begin

section \<open>The stamina bar prototype\<close>

text \<open>
  The repository holds two variants of one React component. \<^verbatim>\<open>src/App.tsx\<close> is the
  single bar with an exhaustion ceiling (variant A); the second source file is the dual
  bar whose maximum decays (variant B). Both are embedded below, variant A under the
  names of \<^verbatim>\<open>App.tsx\<close> and variant B under the same names with the suffix \<open>_B\<close>.

  JavaScript numbers are modelled as \<^typ>\<open>real\<close>, following the specification's numeric
  semantics (all arithmetic is real-valued); \<^verbatim>\<open>Math.max\<close> and \<^verbatim>\<open>Math.min\<close> are
  \<^const>\<open>max\<close> and \<^const>\<open>min\<close>. A ref whose current value may be \<^verbatim>\<open>undefined\<close> is an
  \<^typ>\<open>real option\<close>. The component's hooks are state passing: every handler takes the
  component's state and returns the new one. Scheduling of the next animation frame
  (\<^verbatim>\<open>requestAnimationFrame\<close>, \<^verbatim>\<open>animationFrameId\<close>) changes no value the claims read
  and is left out: a frame is the event \<open>Frame t\<close> with the timestamp the host passes.
\<close>

subsection \<open>Events of the host\<close>

datatype Event =
    Frame real
  | Reset
  | ConfigChange string real
  | KeyDown string bool
  | KeyUp string

fun frameTimes :: "Event list \<Rightarrow> real list" where
  "frameTimes [] = []"
| "frameTimes (Frame t # evs) = t # frameTimes evs"
| "frameTimes (_ # evs) = frameTimes evs"

fun rateOk :: "Event \<Rightarrow> bool" where
  "rateOk (ConfigChange name v) = (0 \<le> v)"
| "rateOk _ = True"

subsection \<open>Variant A: \<^verbatim>\<open>src/App.tsx\<close>\<close>

definition TOTAL_STAMINA :: real where
  "TOTAL_STAMINA = 100"

definition ACTION_STAMINA_RECOVERY_RATE :: real where
  "ACTION_STAMINA_RECOVERY_RATE = 2.0"

record StaminaState =
  exhaustion :: real
  action :: real

record ConfigState =
  exhaustionDecay :: real
  actionStaminaDecay :: real

record App =
  stamina :: StaminaState
  isSpacePressed :: bool
  config :: ConfigState
  previousTime :: "real option"
  isSpacePressedRef :: bool

definition initialApp :: App where
  "initialApp =
     \<lparr>stamina = \<lparr>exhaustion = TOTAL_STAMINA, action = TOTAL_STAMINA\<rparr>,
      isSpacePressed = False,
      config = \<lparr>exhaustionDecay = 0.5, actionStaminaDecay = 3.0\<rparr>,
      previousTime = None,
      isSpacePressedRef = False\<rparr>"

text \<open>
  \<^verbatim>\<open>handleConfigChange\<close> spreads the previous configuration and overwrites the property
  whose key is the slider's \<^verbatim>\<open>name\<close> with the parsed value (the argument \<open>v\<close>). A key
  that is no field of \<^verbatim>\<open>ConfigState\<close> would add a property nothing reads; the record
  keeps its fields then.
\<close>

definition handleConfigChange :: "string \<Rightarrow> real \<Rightarrow> ConfigState \<Rightarrow> ConfigState" where
  "handleConfigChange name v prevConfig =
     (if name = ''exhaustionDecay'' then prevConfig\<lparr>exhaustionDecay := v\<rparr>
      else if name = ''actionStaminaDecay'' then prevConfig\<lparr>actionStaminaDecay := v\<rparr>
      else prevConfig)"

definition resetStamina :: "App \<Rightarrow> App" where
  "resetStamina s =
     s\<lparr>stamina := \<lparr>exhaustion = TOTAL_STAMINA, action = TOTAL_STAMINA\<rparr>,
       previousTime := None\<rparr>"

definition handleKeyDown :: "string \<Rightarrow> bool \<Rightarrow> App \<Rightarrow> App" where
  "handleKeyDown code repeat s =
     (if code = ''Space'' \<and> \<not> repeat then s\<lparr>isSpacePressed := True\<rparr> else s)"

definition handleKeyUp :: "string \<Rightarrow> App \<Rightarrow> App" where
  "handleKeyUp code s =
     (if code = ''Space'' then s\<lparr>isSpacePressed := False\<rparr> else s)"

text \<open>The effect on \<^verbatim>\<open>[isSpacePressed]\<close>: the ref follows the state after the render.\<close>

definition syncRef :: "App \<Rightarrow> App" where
  "syncRef s = s\<lparr>isSpacePressedRef := isSpacePressed s\<rparr>"

definition deltaTime :: "real \<Rightarrow> real \<Rightarrow> real" where
  "deltaTime currentTime prevTime = (currentTime - prevTime) / 1000"

text \<open>The updater that \<^verbatim>\<open>gameLoop\<close> passes to \<^verbatim>\<open>setStamina\<close>.\<close>

definition nextStamina :: "ConfigState \<Rightarrow> bool \<Rightarrow> real \<Rightarrow> StaminaState \<Rightarrow> StaminaState" where
  "nextStamina cfg pressed dt prev =
     (let exhaustionChange = - exhaustionDecay cfg;
          newExhaustion = exhaustion prev + exhaustionChange * dt;
          clampedExhaustion = max 0 (min TOTAL_STAMINA newExhaustion);
          newAction = (if pressed then action prev - actionStaminaDecay cfg * dt
                       else action prev + ACTION_STAMINA_RECOVERY_RATE * dt);
          clampedAction = max 0 (min clampedExhaustion newAction)
      in \<lparr>exhaustion = clampedExhaustion, action = clampedAction\<rparr>)"

definition gameLoop :: "real \<Rightarrow> App \<Rightarrow> App" where
  "gameLoop currentTime s =
     (case previousTime s of
        None \<Rightarrow> s\<lparr>previousTime := Some currentTime\<rparr>
      | Some prevTime \<Rightarrow>
          s\<lparr>stamina := nextStamina (config s) (isSpacePressedRef s)
                         (deltaTime currentTime prevTime) (stamina s),
            previousTime := Some currentTime\<rparr>)"

text \<open>
  The effect on \<^verbatim>\<open>[gameLoop]\<close>: \<^verbatim>\<open>gameLoop\<close> is rebuilt whenever \<^verbatim>\<open>config\<close> changes, and
  the effect's cleanup then cancels the pending frame and clears \<^verbatim>\<open>previousTime\<close>.
\<close>

definition gameLoopCleanup :: "App \<Rightarrow> App" where
  "gameLoopCleanup s = s\<lparr>previousTime := None\<rparr>"

fun dispatch :: "Event \<Rightarrow> App \<Rightarrow> App" where
  "dispatch (Frame t) s = gameLoop t s"
| "dispatch Reset s = resetStamina s"
| "dispatch (ConfigChange name v) s =
     gameLoopCleanup (s\<lparr>config := handleConfigChange name v (config s)\<rparr>)"
| "dispatch (KeyDown code repeat) s = syncRef (handleKeyDown code repeat s)"
| "dispatch (KeyUp code) s = syncRef (handleKeyUp code s)"

definition run :: "Event list \<Rightarrow> App \<Rightarrow> App" where
  "run evs s = fold dispatch evs s"

definition invariant :: "StaminaState \<Rightarrow> bool" where
  "invariant st = (0 \<le> action st \<and> action st \<le> exhaustion st \<and> exhaustion st \<le> TOTAL_STAMINA)"

text \<open>The states after each of a sequence of frames, in order.\<close>

fun frames :: "real list \<Rightarrow> App \<Rightarrow> App list" where
  "frames [] s = []"
| "frames (t # ts) s = gameLoop t s # frames ts (gameLoop t s)"

text \<open>
  The display ratio divides by a state value. In HOL \<open>x / 0 = 0\<close>, whereas JavaScript
  yields \<^verbatim>\<open>NaN\<close> or an infinity, neither of which is a real number: the division is
  modelled with that outcome as \<open>None\<close>, so the guard of the source is what makes the
  result a number.
\<close>

definition jsDivide :: "real \<Rightarrow> real \<Rightarrow> real option" where
  "jsDivide x y = (if y = 0 then None else Some (x / y))"

definition actionRelativeToExhaustionPercent :: "StaminaState \<Rightarrow> real option" where
  "actionRelativeToExhaustionPercent st =
     (if exhaustion st > 0
      then map_option (\<lambda>q. q * 100) (jsDivide (action st) (exhaustion st))
      else Some 0)"

subsection \<open>Variant B: the dual bar\<close>

record StaminaState_B =
  max_B :: real
  current_B :: real

record ConfigState_B =
  maxStaminaDecay :: real
  currentStaminaDecay :: real
  currentStaminaRecovery :: real

record App_B =
  stamina_B :: StaminaState_B
  isSpacePressed_B :: bool
  config_B :: ConfigState_B
  previousTime_B :: "real option"
  isSpacePressedRef_B :: bool

definition initialApp_B :: App_B where
  "initialApp_B =
     \<lparr>stamina_B = \<lparr>max_B = TOTAL_STAMINA, current_B = TOTAL_STAMINA\<rparr>,
      isSpacePressed_B = False,
      config_B = \<lparr>maxStaminaDecay = 1.5, currentStaminaDecay = 30,
                  currentStaminaRecovery = 20\<rparr>,
      previousTime_B = None,
      isSpacePressedRef_B = False\<rparr>"

definition handleConfigChange_B :: "string \<Rightarrow> real \<Rightarrow> ConfigState_B \<Rightarrow> ConfigState_B" where
  "handleConfigChange_B name v prevConfig =
     (if name = ''maxStaminaDecay'' then prevConfig\<lparr>maxStaminaDecay := v\<rparr>
      else if name = ''currentStaminaDecay'' then prevConfig\<lparr>currentStaminaDecay := v\<rparr>
      else if name = ''currentStaminaRecovery'' then prevConfig\<lparr>currentStaminaRecovery := v\<rparr>
      else prevConfig)"

text \<open>Variant B's \<^verbatim>\<open>resetStamina\<close> sets the stamina only; it does not touch \<^verbatim>\<open>previousTime\<close>.\<close>

definition resetStamina_B :: "App_B \<Rightarrow> App_B" where
  "resetStamina_B s =
     s\<lparr>stamina_B := \<lparr>max_B = TOTAL_STAMINA, current_B = TOTAL_STAMINA\<rparr>\<rparr>"

definition handleKeyDown_B :: "string \<Rightarrow> bool \<Rightarrow> App_B \<Rightarrow> App_B" where
  "handleKeyDown_B code repeat s =
     (if code = ''Space'' \<and> \<not> repeat then s\<lparr>isSpacePressed_B := True\<rparr> else s)"

definition handleKeyUp_B :: "string \<Rightarrow> App_B \<Rightarrow> App_B" where
  "handleKeyUp_B code s =
     (if code = ''Space'' then s\<lparr>isSpacePressed_B := False\<rparr> else s)"

definition syncRef_B :: "App_B \<Rightarrow> App_B" where
  "syncRef_B s = s\<lparr>isSpacePressedRef_B := isSpacePressed_B s\<rparr>"

definition nextStamina_B :: "ConfigState_B \<Rightarrow> bool \<Rightarrow> real \<Rightarrow> StaminaState_B \<Rightarrow> StaminaState_B" where
  "nextStamina_B cfg pressed dt prev =
     (let newMax = max 0 (max_B prev - maxStaminaDecay cfg * dt);
          newCurrent = (if pressed then current_B prev - currentStaminaDecay cfg * dt
                        else current_B prev + currentStaminaRecovery cfg * dt);
          newCurrent' = max 0 (min newCurrent newMax)
      in \<lparr>max_B = newMax, current_B = newCurrent'\<rparr>)"

text \<open>
  Variant B's \<^verbatim>\<open>gameLoop\<close> has no early return: an unset \<^verbatim>\<open>previousTime\<close> is first set to
  \<^verbatim>\<open>currentTime\<close>, and the update then runs with a delta of zero.
\<close>

definition gameLoop_B :: "real \<Rightarrow> App_B \<Rightarrow> App_B" where
  "gameLoop_B currentTime s =
     (let prevTime = (case previousTime_B s of None \<Rightarrow> currentTime | Some p \<Rightarrow> p)
      in s\<lparr>stamina_B := nextStamina_B (config_B s) (isSpacePressedRef_B s)
                           (deltaTime currentTime prevTime) (stamina_B s),
           previousTime_B := Some currentTime\<rparr>)"

definition gameLoopCleanup_B :: "App_B \<Rightarrow> App_B" where
  "gameLoopCleanup_B s = s\<lparr>previousTime_B := None\<rparr>"

fun dispatch_B :: "Event \<Rightarrow> App_B \<Rightarrow> App_B" where
  "dispatch_B (Frame t) s = gameLoop_B t s"
| "dispatch_B Reset s = resetStamina_B s"
| "dispatch_B (ConfigChange name v) s =
     gameLoopCleanup_B (s\<lparr>config_B := handleConfigChange_B name v (config_B s)\<rparr>)"
| "dispatch_B (KeyDown code repeat) s = syncRef_B (handleKeyDown_B code repeat s)"
| "dispatch_B (KeyUp code) s = syncRef_B (handleKeyUp_B code s)"

definition run_B :: "Event list \<Rightarrow> App_B \<Rightarrow> App_B" where
  "run_B evs s = fold dispatch_B evs s"

fun frames_B :: "real list \<Rightarrow> App_B \<Rightarrow> App_B list" where
  "frames_B [] s = []"
| "frames_B (t # ts) s = gameLoop_B t s # frames_B ts (gameLoop_B t s)"

definition invariant_B :: "StaminaState_B \<Rightarrow> bool" where
  "invariant_B st = (0 \<le> current_B st \<and> current_B st \<le> max_B st \<and> max_B st \<le> TOTAL_STAMINA)"

text \<open>
  What an induction over variant B's events carries: the invariant, a decay rate that is
  not negative, and a clock baseline no later than any frame still to come (\<open>ts\<close>).
\<close>

definition ready_B :: "real list \<Rightarrow> App_B \<Rightarrow> bool" where
  "ready_B ts s =
     (invariant_B (stamina_B s) \<and> 0 \<le> maxStaminaDecay (config_B s)
      \<and> (case previousTime_B s of None \<Rightarrow> True | Some p \<Rightarrow> list_all (\<lambda>t. p \<le> t) ts))"

section \<open>Facts about single steps and runs\<close>

lemmas run_simps = run_def run_B_def gameLoop_def gameLoop_B_def nextStamina_def nextStamina_B_def
  deltaTime_def resetStamina_def resetStamina_B_def initialApp_def initialApp_B_def
  TOTAL_STAMINA_def ACTION_STAMINA_RECOVERY_RATE_def Let_def syncRef_def syncRef_B_def
  handleKeyDown_def handleKeyDown_B_def handleKeyUp_def handleKeyUp_B_def
  gameLoopCleanup_def gameLoopCleanup_B_def handleConfigChange_def handleConfigChange_B_def

lemma nextStamina_invariant: "invariant (nextStamina cfg pressed dt st)"
  by (simp add: invariant_def nextStamina_def Let_def TOTAL_STAMINA_def)

lemma nextStamina_B_invariant:
  "invariant_B st \<Longrightarrow> 0 \<le> maxStaminaDecay cfg \<Longrightarrow> 0 \<le> dt
   \<Longrightarrow> invariant_B (nextStamina_B cfg pressed dt st)"
  by (simp add: invariant_B_def nextStamina_B_def Let_def TOTAL_STAMINA_def
      add_increasing2 diff_le_eq)

lemma deltaTime_nonneg: "p \<le> t \<Longrightarrow> 0 \<le> deltaTime t p"
  by (simp add: deltaTime_def)

lemma dispatch_invariant:
  "invariant (stamina s) \<Longrightarrow> invariant (stamina (dispatch e s))"
proof (cases e)
  case (Frame t)
  assume "invariant (stamina s)"
  then show ?thesis using Frame
    by (simp add: gameLoop_def nextStamina_invariant split: option.splits)
next
  case Reset
  then show ?thesis
    by (simp add: resetStamina_def invariant_def TOTAL_STAMINA_def)
next
  case (ConfigChange name v)
  assume "invariant (stamina s)"
  then show ?thesis using ConfigChange by (simp add: gameLoopCleanup_def)
next
  case (KeyDown code repeat)
  assume "invariant (stamina s)"
  then show ?thesis using KeyDown by (simp add: syncRef_def handleKeyDown_def)
next
  case (KeyUp code)
  assume "invariant (stamina s)"
  then show ?thesis using KeyUp by (simp add: syncRef_def handleKeyUp_def)
qed

lemma run_invariant:
  "invariant (stamina s) \<Longrightarrow> invariant (stamina (run evs s))"
  unfolding run_def
  by (induction evs arbitrary: s) (simp_all add: dispatch_invariant)

lemma dispatch_B_ready:
  assumes "ready_B (frameTimes (e # evs)) s" "rateOk e" "sorted (frameTimes (e # evs))"
  shows "ready_B (frameTimes evs) (dispatch_B e s)"
proof (cases e)
  case (Frame t)
  have dt: "0 \<le> deltaTime t (case previousTime_B s of None \<Rightarrow> t | Some p \<Rightarrow> p)"
    using assms(1) Frame by (auto simp: ready_B_def deltaTime_def split: option.splits)
  have "invariant_B (stamina_B (gameLoop_B t s))"
    using assms(1) dt by (simp add: gameLoop_B_def ready_B_def nextStamina_B_invariant)
  moreover have "list_all (\<lambda>u. t \<le> u) (frameTimes evs)"
    using assms(3) Frame by (simp add: list_all_iff)
  ultimately show ?thesis using assms(1) Frame
    by (simp add: ready_B_def gameLoop_B_def)
next
  case Reset
  then show ?thesis using assms(1)
    by (simp add: ready_B_def resetStamina_B_def invariant_B_def TOTAL_STAMINA_def)
next
  case (ConfigChange name v)
  then show ?thesis using assms(1,2)
    by (simp add: ready_B_def gameLoopCleanup_B_def handleConfigChange_B_def)
next
  case (KeyDown code repeat)
  then show ?thesis using assms(1)
    by (simp add: ready_B_def syncRef_B_def handleKeyDown_B_def)
next
  case (KeyUp code)
  then show ?thesis using assms(1)
    by (simp add: ready_B_def syncRef_B_def handleKeyUp_B_def)
qed

lemma sorted_frameTimes_tail: "sorted (frameTimes (e # evs)) \<Longrightarrow> sorted (frameTimes evs)"
  by (cases e) simp_all

lemma run_B_ready:
  "ready_B (frameTimes evs) s \<Longrightarrow> list_all rateOk evs \<Longrightarrow> sorted (frameTimes evs)
   \<Longrightarrow> ready_B [] (run_B evs s)"
proof (induction evs arbitrary: s)
  case Nil
  then show ?case by (simp add: run_B_def ready_B_def split: option.splits)
next
  case (Cons e evs)
  have "ready_B (frameTimes evs) (dispatch_B e s)"
    using Cons.prems by (intro dispatch_B_ready) simp_all
  moreover have "list_all rateOk evs" using Cons.prems by simp
  moreover have "sorted (frameTimes evs)"
    using Cons.prems(3) by (rule sorted_frameTimes_tail)
  ultimately have "ready_B [] (run_B evs (dispatch_B e s))" by (rule Cons.IH)
  then show ?case by (simp add: run_B_def)
qed

lemma frameTimes_take_set: "set (frameTimes (take n evs)) \<subseteq> set (frameTimes evs)"
proof (induction evs arbitrary: n)
  case Nil
  then show ?case by simp
next
  case (Cons e evs)
  show ?case
  proof (cases n)
    case 0
    then show ?thesis by simp
  next
    case (Suc m)
    then show ?thesis using Cons.IH [of m] by (cases e) auto
  qed
qed

lemma sorted_frameTimes_take:
  "sorted (frameTimes evs) \<Longrightarrow> sorted (frameTimes (take n evs))"
proof (induction evs arbitrary: n)
  case Nil
  then show ?case by simp
next
  case (Cons e evs)
  show ?case
  proof (cases n)
    case 0
    then show ?thesis by simp
  next
    case (Suc m)
    have tl: "sorted (frameTimes (take m evs))"
      using Cons.IH Cons.prems sorted_frameTimes_tail by blast
    show ?thesis
    proof (cases e)
      case (Frame t)
      then show ?thesis using Suc tl Cons.prems frameTimes_take_set [of m evs] by auto
    qed (use Suc tl in simp_all)
  qed
qed

lemma list_all_take: "list_all P xs \<Longrightarrow> list_all P (take n xs)"
  by (auto simp: list_all_iff dest: in_set_takeD)

lemma nextStamina_action:
  "action (nextStamina cfg pressed dt st) =
     max 0 (min (exhaustion (nextStamina cfg pressed dt st))
       (if pressed then action st - actionStaminaDecay cfg * dt
        else action st + ACTION_STAMINA_RECOVERY_RATE * dt))"
  by (simp add: nextStamina_def Let_def)

lemma nextStamina_B_current:
  "current_B (nextStamina_B cfg pressed dt st) =
     max 0 (min (if pressed then current_B st - currentStaminaDecay cfg * dt
                 else current_B st + currentStaminaRecovery cfg * dt)
              (max_B (nextStamina_B cfg pressed dt st)))"
  by (simp add: nextStamina_B_def Let_def)

lemma nextStamina_exhaustion_nonneg: "0 \<le> exhaustion (nextStamina cfg pressed dt st)"
  by (simp add: nextStamina_def Let_def)

lemma nextStamina_B_max_nonneg: "0 \<le> max_B (nextStamina_B cfg pressed dt st)"
  by (simp add: nextStamina_B_def Let_def)

lemma nextStamina_coupling:
  assumes "0 \<le> dt" and "exhaustion (nextStamina cfg False dt st) < action st"
  shows "action (nextStamina cfg False dt st) = exhaustion (nextStamina cfg False dt st)"
proof -
  let ?e = "exhaustion (nextStamina cfg False dt st)"
  have "action st \<le> action st + ACTION_STAMINA_RECOVERY_RATE * dt"
    using assms(1) by (simp add: ACTION_STAMINA_RECOVERY_RATE_def)
  then have "min ?e (action st + ACTION_STAMINA_RECOVERY_RATE * dt) = ?e"
    using assms(2) by simp
  moreover have "0 \<le> ?e" by (rule nextStamina_exhaustion_nonneg)
  ultimately show ?thesis by (simp add: nextStamina_action)
qed

lemma nextStamina_B_coupling:
  assumes "0 \<le> dt" and "0 \<le> currentStaminaRecovery cfg"
    and "max_B (nextStamina_B cfg False dt st) < current_B st"
  shows "current_B (nextStamina_B cfg False dt st) = max_B (nextStamina_B cfg False dt st)"
proof -
  let ?m = "max_B (nextStamina_B cfg False dt st)"
  have "current_B st \<le> current_B st + currentStaminaRecovery cfg * dt"
    using assms(1,2) by simp
  then have "min (current_B st + currentStaminaRecovery cfg * dt) ?m = ?m"
    using assms(3) by simp
  moreover have "0 \<le> ?m" by (rule nextStamina_B_max_nonneg)
  ultimately show ?thesis by (simp add: nextStamina_B_current)
qed

lemma nextStamina_B_zero:
  "0 \<le> current_B st \<Longrightarrow> current_B st \<le> max_B st \<Longrightarrow> nextStamina_B cfg pressed 0 st = st"
  by (simp add: nextStamina_B_def Let_def)

lemma nextStamina_exhaustion_le:
  "0 \<le> exhaustion st \<Longrightarrow> 0 \<le> exhaustionDecay cfg \<Longrightarrow> 0 \<le> dt
   \<Longrightarrow> exhaustion (nextStamina cfg pressed dt st) \<le> exhaustion st"
  by (simp add: nextStamina_def Let_def min_le_iff_disj)

lemma nextStamina_B_max_le:
  "0 \<le> max_B st \<Longrightarrow> 0 \<le> maxStaminaDecay cfg \<Longrightarrow> 0 \<le> dt
   \<Longrightarrow> max_B (nextStamina_B cfg pressed dt st) \<le> max_B st"
  by (simp add: nextStamina_B_def Let_def)

lemma gameLoop_exhaustion_le:
  assumes "0 \<le> exhaustion (stamina s)" and "0 \<le> exhaustionDecay (config s)"
    and "sorted (case previousTime s of None \<Rightarrow> t # ts | Some p \<Rightarrow> p # t # ts)"
  shows "exhaustion (stamina (gameLoop t s)) \<le> exhaustion (stamina s)"
proof (cases "previousTime s")
  case None
  then show ?thesis by (simp add: gameLoop_def)
next
  case (Some p)
  then have "0 \<le> deltaTime t p" using assms(3) by (simp add: deltaTime_def)
  then show ?thesis using Some assms(1,2)
    by (simp add: gameLoop_def nextStamina_exhaustion_le)
qed

lemma gameLoop_keeps:
  "0 \<le> exhaustion (stamina s) \<Longrightarrow> 0 \<le> exhaustion (stamina (gameLoop t s))"
  "config (gameLoop t s) = config s"
  "previousTime (gameLoop t s) = Some t"
  by (simp_all add: gameLoop_def nextStamina_def Let_def split: option.splits)

lemma frames_nonincreasing:
  "0 \<le> exhaustion (stamina s) \<Longrightarrow> 0 \<le> exhaustionDecay (config s)
   \<Longrightarrow> sorted (case previousTime s of None \<Rightarrow> ts | Some p \<Rightarrow> p # ts)
   \<Longrightarrow> successively (\<lambda>a b. exhaustion (stamina b) \<le> exhaustion (stamina a)) (s # frames ts s)"
proof (induction ts arbitrary: s)
  case Nil
  then show ?case by simp
next
  case (Cons t ts)
  have step: "exhaustion (stamina (gameLoop t s)) \<le> exhaustion (stamina s)"
    using Cons.prems by (rule gameLoop_exhaustion_le)
  have "sorted (t # ts)" using Cons.prems(3) by (simp split: option.splits)
  then have "sorted (case previousTime (gameLoop t s) of None \<Rightarrow> ts | Some p \<Rightarrow> p # ts)"
    by (simp add: gameLoop_keeps)
  then have "successively (\<lambda>a b. exhaustion (stamina b) \<le> exhaustion (stamina a))
      (gameLoop t s # frames ts (gameLoop t s))"
    using Cons.prems(1,2) by (intro Cons.IH) (simp_all add: gameLoop_keeps)
  with step show ?case by simp
qed

lemma gameLoop_B_max_le:
  assumes "0 \<le> max_B (stamina_B s)" and "0 \<le> maxStaminaDecay (config_B s)"
    and "sorted (case previousTime_B s of None \<Rightarrow> t # ts | Some p \<Rightarrow> p # t # ts)"
  shows "max_B (stamina_B (gameLoop_B t s)) \<le> max_B (stamina_B s)"
proof -
  have "0 \<le> deltaTime t (case previousTime_B s of None \<Rightarrow> t | Some p \<Rightarrow> p)"
    using assms(3) by (simp add: deltaTime_def split: option.splits)
  then show ?thesis using assms(1,2)
    by (simp add: gameLoop_B_def nextStamina_B_max_le)
qed

lemma gameLoop_B_keeps:
  "0 \<le> max_B (stamina_B (gameLoop_B t s))"
  "config_B (gameLoop_B t s) = config_B s"
  "previousTime_B (gameLoop_B t s) = Some t"
  by (simp_all add: gameLoop_B_def nextStamina_B_def Let_def)

lemma frames_B_nonincreasing:
  "0 \<le> max_B (stamina_B s) \<Longrightarrow> 0 \<le> maxStaminaDecay (config_B s)
   \<Longrightarrow> sorted (case previousTime_B s of None \<Rightarrow> ts | Some p \<Rightarrow> p # ts)
   \<Longrightarrow> successively (\<lambda>a b. max_B (stamina_B b) \<le> max_B (stamina_B a)) (s # frames_B ts s)"
proof (induction ts arbitrary: s)
  case Nil
  then show ?case by simp
next
  case (Cons t ts)
  have step: "max_B (stamina_B (gameLoop_B t s)) \<le> max_B (stamina_B s)"
    using Cons.prems by (rule gameLoop_B_max_le)
  have "sorted (t # ts)" using Cons.prems(3) by (simp split: option.splits)
  then have "sorted (case previousTime_B (gameLoop_B t s) of None \<Rightarrow> ts | Some p \<Rightarrow> p # ts)"
    by (simp add: gameLoop_B_keeps)
  then have "successively (\<lambda>a b. max_B (stamina_B b) \<le> max_B (stamina_B a))
      (gameLoop_B t s # frames_B ts (gameLoop_B t s))"
    using Cons.prems(2) by (intro Cons.IH) (simp_all add: gameLoop_B_keeps)
  with step show ?case by simp
qed

section \<open>The invariant\<close>

text \<open>
  Claim C1. Every reachable state satisfies \<open>0 \<le> secondary \<le> primary \<le> CAP\<close>: start from
  the initial state and apply any sequence of events (frames, resets, configuration
  changes, key presses and releases) in which every rate set by a configuration change is
  non-negative and the frame timestamps never decrease. After every event of the sequence
  (every prefix \<open>take n evs\<close>) the stamina of variant A and of variant B satisfies the
  invariant. Variant A clamps both values in every step; variant B has no upper clamp on
  \<open>max\<close>, and stays below \<open>TOTAL_STAMINA\<close> because the decay only subtracts.
\<close>

theorem invariant_reachable:
  assumes "list_all rateOk evs" and "sorted (frameTimes evs)"
  shows "invariant (stamina (run (take n evs) initialApp))
       \<and> invariant_B (stamina_B (run_B (take n evs) initialApp_B))"
proof
  show "invariant (stamina (run (take n evs) initialApp))"
    by (rule run_invariant) (simp add: initialApp_def invariant_def TOTAL_STAMINA_def)
  have "ready_B (frameTimes (take n evs)) initialApp_B"
    by (simp add: ready_B_def initialApp_B_def invariant_B_def TOTAL_STAMINA_def)
  then have "ready_B [] (run_B (take n evs) initialApp_B)"
    using assms by (intro run_B_ready list_all_take sorted_frameTimes_take)
  then show "invariant_B (stamina_B (run_B (take n evs) initialApp_B))"
    by (simp add: ready_B_def)
qed


theorem invariant_reachable_witness:
  "list_all rateOk [Frame 0, KeyDown ''Space'' False, Frame 1000,
       ConfigChange ''maxStaminaDecay'' 10, Reset, Frame 5000, KeyUp ''Space'', Frame 9000]
   \<and> sorted (frameTimes [Frame 0, KeyDown ''Space'' False, Frame 1000,
       ConfigChange ''maxStaminaDecay'' 10, Reset, Frame 5000, KeyUp ''Space'', Frame 9000])
   \<and> invariant (stamina (run (take 8 [Frame 0, KeyDown ''Space'' False, Frame 1000,
       ConfigChange ''maxStaminaDecay'' 10, Reset, Frame 5000, KeyUp ''Space'', Frame 9000])
         initialApp))
   \<and> invariant_B (stamina_B (run_B (take 8 [Frame 0, KeyDown ''Space'' False, Frame 1000,
       ConfigChange ''maxStaminaDecay'' 10, Reset, Frame 5000, KeyUp ''Space'', Frame 9000])
         initialApp_B))"
  using invariant_reachable [of "[Frame 0, KeyDown ''Space'' False, Frame 1000,
       ConfigChange ''maxStaminaDecay'' 10, Reset, Frame 5000, KeyUp ''Space'', Frame 9000]" 8]
  by simp

section \<open>Reset\<close>

text \<open>
  Claim C2, as amended. \<^verbatim>\<open>resetStamina\<close> sets both quantities to \<open>TOTAL_STAMINA\<close> in both
  variants. In variant A it also clears \<^verbatim>\<open>previousTime\<close>, so the next frame only records
  its timestamp and charges no time. In variant B it leaves \<^verbatim>\<open>previousTime\<close> as it is, and
  the next frame charges the time since the baseline \<open>p\<close> of the last frame to the reset
  state.
\<close>

theorem reset_effect:
  "stamina (resetStamina s) = \<lparr>exhaustion = TOTAL_STAMINA, action = TOTAL_STAMINA\<rparr>
   \<and> previousTime (resetStamina s) = None
   \<and> gameLoop t (resetStamina s) = (resetStamina s)\<lparr>previousTime := Some t\<rparr>
   \<and> stamina_B (resetStamina_B b) = \<lparr>max_B = TOTAL_STAMINA, current_B = TOTAL_STAMINA\<rparr>
   \<and> previousTime_B (resetStamina_B b) = previousTime_B b
   \<and> (previousTime_B b = Some p \<longrightarrow>
        stamina_B (gameLoop_B t (resetStamina_B b)) =
          nextStamina_B (config_B b) (isSpacePressedRef_B b) (deltaTime t p)
            \<lparr>max_B = TOTAL_STAMINA, current_B = TOTAL_STAMINA\<rparr>)"
  by (simp add: resetStamina_def resetStamina_B_def gameLoop_def gameLoop_B_def)

theorem reset_effect_witness:
  "previousTime_B (gameLoop_B 0 initialApp_B) = Some 0
   \<and> stamina (resetStamina initialApp) = \<lparr>exhaustion = 100, action = 100\<rparr>
   \<and> gameLoop 7 (resetStamina initialApp) = (resetStamina initialApp)\<lparr>previousTime := Some 7\<rparr>
   \<and> previousTime_B (resetStamina_B (gameLoop_B 0 initialApp_B)) = Some 0
   \<and> stamina_B (gameLoop_B 1000 (resetStamina_B (gameLoop_B 0 initialApp_B))) =
       \<lparr>max_B = 197 / 2, current_B = 197 / 2\<rparr>"
  using reset_effect [of initialApp 7 "gameLoop_B 0 initialApp_B" 0]
  by (simp add: run_simps)

text \<open>
  Against claim C2 as stated: in variant B, after a frame at 0 and a reset, the baseline
  is still 0, not unset, and the frame at 1000 charges one second to the reset state.
\<close>

theorem reset_keeps_baseline_B_counterexample:
  "previousTime_B (run_B [Frame 0, Reset] initialApp_B) = Some 0
   \<and> previousTime_B (run_B [Frame 0, Reset] initialApp_B) \<noteq> None
   \<and> stamina_B (run_B [Frame 0, Reset] initialApp_B) = \<lparr>max_B = 100, current_B = 100\<rparr>
   \<and> stamina_B (run_B [Frame 0, Reset, Frame 1000] initialApp_B) =
       \<lparr>max_B = 197 / 2, current_B = 197 / 2\<rparr>"
  by (simp add: run_simps)

section \<open>Elapsed time\<close>

text \<open>
  Claim C3, as amended. The elapsed time a frame uses is \<open>(now - previous) / 1000\<close>, with
  no clamp, in both variants: once a baseline \<open>p\<close> is set, \<^verbatim>\<open>gameLoop\<close> commits the update
  computed with exactly that delta. The delta is non-negative whenever the timestamp has
  not gone back (\<open>p \<le> t\<close>) and negative when it has (\<open>t < p\<close>); no error is raised.
\<close>

theorem elapsed_unclamped:
  "(previousTime s = Some p \<longrightarrow>
      gameLoop t s = s\<lparr>stamina := nextStamina (config s) (isSpacePressedRef s)
                                    ((t - p) / 1000) (stamina s),
                       previousTime := Some t\<rparr>)
   \<and> (previousTime_B b = Some p \<longrightarrow>
      gameLoop_B t b = b\<lparr>stamina_B := nextStamina_B (config_B b) (isSpacePressedRef_B b)
                                    ((t - p) / 1000) (stamina_B b),
                         previousTime_B := Some t\<rparr>)
   \<and> (p \<le> t \<longrightarrow> 0 \<le> deltaTime t p)
   \<and> (t < p \<longrightarrow> deltaTime t p < 0)"
  by (simp add: gameLoop_def gameLoop_B_def deltaTime_def)

theorem elapsed_unclamped_witness:
  "previousTime (gameLoop 1000 initialApp) = Some 1000
   \<and> previousTime_B (gameLoop_B 1000 initialApp_B) = Some 1000
   \<and> (1000::real) \<le> 3000 \<and> (500::real) < 1000
   \<and> stamina (gameLoop 3000 (gameLoop 1000 initialApp)) = \<lparr>exhaustion = 99, action = 99\<rparr>
   \<and> stamina_B (gameLoop_B 3000 (gameLoop_B 1000 initialApp_B)) = \<lparr>max_B = 97, current_B = 97\<rparr>
   \<and> 0 \<le> deltaTime 3000 1000
   \<and> deltaTime 500 1000 < 0"
  using elapsed_unclamped [of "gameLoop 1000 initialApp" 1000 3000 "gameLoop_B 1000 initialApp_B"]
    elapsed_unclamped [of "gameLoop 1000 initialApp" 1000 500 "gameLoop_B 1000 initialApp_B"]
  by (simp add: run_simps)

text \<open>
  Against claim C3 as stated: a timestamp that goes back by a second gives a delta of
  \<open>- 1\<close>, and the update runs with it. In variant A the exhaustion rises from 50 to 50.5
  and the released action bar falls from 50 to 48; in variant B the maximum rises from
  97 to 98.5.
\<close>

theorem negative_elapsed_counterexample:
  "deltaTime 99000 100000 = - 1
   \<and> deltaTime 99000 100000 < 0
   \<and> previousTime (run [Frame 0, Frame 100000] initialApp) = Some 100000
   \<and> stamina (run [Frame 0, Frame 100000] initialApp) = \<lparr>exhaustion = 50, action = 50\<rparr>
   \<and> stamina (run [Frame 0, Frame 100000, Frame 99000] initialApp) =
       \<lparr>exhaustion = 101 / 2, action = 48\<rparr>
   \<and> stamina_B (run_B [Frame 0, Frame 2000] initialApp_B) = \<lparr>max_B = 97, current_B = 97\<rparr>
   \<and> stamina_B (run_B [Frame 0, Frame 2000, Frame 1000] initialApp_B) =
       \<lparr>max_B = 197 / 2, current_B = 77\<rparr>"
  by (simp add: run_simps)

section \<open>The ceiling coupling\<close>

text \<open>
  Claim C4. In every frame that updates the state, the committed secondary value is the
  raw value (drained while the key is held, recovered otherwise) clamped to
  \<open>[0, primary']\<close>, where \<open>primary'\<close> is the primary value committed by the same frame,
  after its decay. So the result lies between 0 and the new primary; and when the key is
  released, time has not gone back (and, in variant B, the recovery rate is not negative),
  a new primary below the old secondary is what the new secondary equals, although the
  recovery alone would have raised it. Variant A updates the state once a baseline \<open>p\<close> is
  set; variant B updates in every frame, with the delta \<open>dt\<close> taken against the frame's own
  timestamp when no baseline is set.
\<close>

theorem ceiling_coupling:
  "(previousTime s = Some p \<longrightarrow>
      action (stamina (gameLoop t s)) =
        max 0 (min (exhaustion (stamina (gameLoop t s)))
          (if isSpacePressedRef s
           then action (stamina s) - actionStaminaDecay (config s) * deltaTime t p
           else action (stamina s) + ACTION_STAMINA_RECOVERY_RATE * deltaTime t p))
      \<and> 0 \<le> action (stamina (gameLoop t s))
      \<and> action (stamina (gameLoop t s)) \<le> exhaustion (stamina (gameLoop t s))
      \<and> (\<not> isSpacePressedRef s \<and> p \<le> t
           \<and> exhaustion (stamina (gameLoop t s)) < action (stamina s)
         \<longrightarrow> action (stamina (gameLoop t s)) = exhaustion (stamina (gameLoop t s))))
   \<and> (dt = deltaTime t (case previousTime_B b of None \<Rightarrow> t | Some q \<Rightarrow> q) \<longrightarrow>
      current_B (stamina_B (gameLoop_B t b)) =
        max 0 (min (if isSpacePressedRef_B b
                    then current_B (stamina_B b) - currentStaminaDecay (config_B b) * dt
                    else current_B (stamina_B b) + currentStaminaRecovery (config_B b) * dt)
                 (max_B (stamina_B (gameLoop_B t b))))
      \<and> 0 \<le> current_B (stamina_B (gameLoop_B t b))
      \<and> current_B (stamina_B (gameLoop_B t b)) \<le> max_B (stamina_B (gameLoop_B t b))
      \<and> (\<not> isSpacePressedRef_B b \<and> 0 \<le> dt \<and> 0 \<le> currentStaminaRecovery (config_B b)
           \<and> max_B (stamina_B (gameLoop_B t b)) < current_B (stamina_B b)
         \<longrightarrow> current_B (stamina_B (gameLoop_B t b)) = max_B (stamina_B (gameLoop_B t b))))"
proof (intro conjI impI)
  assume p: "previousTime s = Some p"
  then have g: "stamina (gameLoop t s) =
      nextStamina (config s) (isSpacePressedRef s) (deltaTime t p) (stamina s)"
    by (simp add: gameLoop_def)
  show "action (stamina (gameLoop t s)) =
        max 0 (min (exhaustion (stamina (gameLoop t s)))
          (if isSpacePressedRef s
           then action (stamina s) - actionStaminaDecay (config s) * deltaTime t p
           else action (stamina s) + ACTION_STAMINA_RECOVERY_RATE * deltaTime t p))"
    unfolding g by (rule nextStamina_action)
  have "invariant (stamina (gameLoop t s))"
    unfolding g by (rule nextStamina_invariant)
  then show "0 \<le> action (stamina (gameLoop t s))"
    and "action (stamina (gameLoop t s)) \<le> exhaustion (stamina (gameLoop t s))"
    by (simp_all add: invariant_def)
  assume "\<not> isSpacePressedRef s \<and> p \<le> t
           \<and> exhaustion (stamina (gameLoop t s)) < action (stamina s)"
  then have r: "isSpacePressedRef s = False" and nn: "0 \<le> deltaTime t p"
    and lt: "exhaustion (stamina (gameLoop t s)) < action (stamina s)"
    by (simp_all add: deltaTime_nonneg)
  from nn lt show "action (stamina (gameLoop t s)) = exhaustion (stamina (gameLoop t s))"
    unfolding g r by (rule nextStamina_coupling)
next
  assume d: "dt = deltaTime t (case previousTime_B b of None \<Rightarrow> t | Some q \<Rightarrow> q)"
  then have g: "stamina_B (gameLoop_B t b) =
      nextStamina_B (config_B b) (isSpacePressedRef_B b) dt (stamina_B b)"
    by (simp add: gameLoop_B_def)
  show "current_B (stamina_B (gameLoop_B t b)) =
        max 0 (min (if isSpacePressedRef_B b
                    then current_B (stamina_B b) - currentStaminaDecay (config_B b) * dt
                    else current_B (stamina_B b) + currentStaminaRecovery (config_B b) * dt)
                 (max_B (stamina_B (gameLoop_B t b))))"
    unfolding g by (rule nextStamina_B_current)
  then show "0 \<le> current_B (stamina_B (gameLoop_B t b))" by simp
  show "current_B (stamina_B (gameLoop_B t b)) \<le> max_B (stamina_B (gameLoop_B t b))"
    unfolding g by (simp add: nextStamina_B_def Let_def)
  assume "\<not> isSpacePressedRef_B b \<and> 0 \<le> dt \<and> 0 \<le> currentStaminaRecovery (config_B b)
           \<and> max_B (stamina_B (gameLoop_B t b)) < current_B (stamina_B b)"
  then have r: "isSpacePressedRef_B b = False" and nn: "0 \<le> dt"
    and rc: "0 \<le> currentStaminaRecovery (config_B b)"
    and lt: "max_B (stamina_B (gameLoop_B t b)) < current_B (stamina_B b)"
    by simp_all
  from nn rc lt
  show "current_B (stamina_B (gameLoop_B t b)) = max_B (stamina_B (gameLoop_B t b))"
    unfolding g r by (rule nextStamina_B_coupling)
qed

theorem ceiling_coupling_witness:
  "previousTime (gameLoop 0 initialApp) = Some 0
   \<and> \<not> isSpacePressedRef (gameLoop 0 initialApp) \<and> (0::real) \<le> 1000
   \<and> exhaustion (stamina (gameLoop 1000 (gameLoop 0 initialApp))) = 199 / 2
   \<and> action (stamina (gameLoop 0 initialApp)) = 100
   \<and> action (stamina (gameLoop 1000 (gameLoop 0 initialApp))) = 199 / 2
   \<and> 1 = deltaTime 1000 (case previousTime_B (gameLoop_B 0 initialApp_B) of
                            None \<Rightarrow> 1000 | Some q \<Rightarrow> q)
   \<and> \<not> isSpacePressedRef_B (gameLoop_B 0 initialApp_B)
   \<and> 0 \<le> currentStaminaRecovery (config_B (gameLoop_B 0 initialApp_B))
   \<and> max_B (stamina_B (gameLoop_B 1000 (gameLoop_B 0 initialApp_B))) = 197 / 2
   \<and> current_B (stamina_B (gameLoop_B 0 initialApp_B)) = 100
   \<and> current_B (stamina_B (gameLoop_B 1000 (gameLoop_B 0 initialApp_B))) = 197 / 2"
  using ceiling_coupling [of "gameLoop 0 initialApp" 0 1000 1 "gameLoop_B 0 initialApp_B"]
  by (simp add: run_simps)

section \<open>The first frame\<close>

text \<open>
  Claim C5, as amended. In variant A a frame with no baseline only records its timestamp
  \<open>t\<close>, whatever \<open>t\<close> is: so does the first frame after construction and the first frame
  after a reset. In variant B a frame with no baseline runs the update with a delta of
  zero, which leaves every state with \<open>0 \<le> current \<le> max\<close> as it is and records \<open>t\<close>: so
  does the first frame after construction. Variant B's reset does not clear the baseline,
  so the frame after a reset is such a first frame only when no baseline was set before.
\<close>

theorem first_frame_noop:
  "(previousTime s = None \<longrightarrow> gameLoop t s = s\<lparr>previousTime := Some t\<rparr>)
   \<and> gameLoop t initialApp = initialApp\<lparr>previousTime := Some t\<rparr>
   \<and> gameLoop t (resetStamina s) = (resetStamina s)\<lparr>previousTime := Some t\<rparr>
   \<and> (previousTime_B b = None \<and> 0 \<le> current_B (stamina_B b)
        \<and> current_B (stamina_B b) \<le> max_B (stamina_B b)
      \<longrightarrow> gameLoop_B t b = b\<lparr>previousTime_B := Some t\<rparr>)
   \<and> gameLoop_B t initialApp_B = initialApp_B\<lparr>previousTime_B := Some t\<rparr>
   \<and> (previousTime_B b = None
      \<longrightarrow> gameLoop_B t (resetStamina_B b) = (resetStamina_B b)\<lparr>previousTime_B := Some t\<rparr>)"
proof -
  have zero: "deltaTime t t = 0" by (simp add: deltaTime_def)
  have a: "previousTime s = None \<longrightarrow> gameLoop t s = s\<lparr>previousTime := Some t\<rparr>"
    by (simp add: gameLoop_def)
  have b: "gameLoop t initialApp = initialApp\<lparr>previousTime := Some t\<rparr>"
    by (simp add: gameLoop_def initialApp_def)
  have c: "gameLoop t (resetStamina s) = (resetStamina s)\<lparr>previousTime := Some t\<rparr>"
    by (simp add: gameLoop_def resetStamina_def)
  have d: "previousTime_B b = None \<and> 0 \<le> current_B (stamina_B b)
        \<and> current_B (stamina_B b) \<le> max_B (stamina_B b)
      \<longrightarrow> gameLoop_B t b = b\<lparr>previousTime_B := Some t\<rparr>"
    by (simp add: gameLoop_B_def zero nextStamina_B_zero)
  have e: "gameLoop_B t initialApp_B = initialApp_B\<lparr>previousTime_B := Some t\<rparr>"
    by (simp add: gameLoop_B_def zero nextStamina_B_zero initialApp_B_def TOTAL_STAMINA_def)
  have f: "previousTime_B b = None
      \<longrightarrow> gameLoop_B t (resetStamina_B b) = (resetStamina_B b)\<lparr>previousTime_B := Some t\<rparr>"
    by (simp add: gameLoop_B_def zero nextStamina_B_zero resetStamina_B_def TOTAL_STAMINA_def)
  from a b c d e f show ?thesis by blast
qed

theorem first_frame_noop_witness:
  "previousTime initialApp = None
   \<and> gameLoop 123456 initialApp = initialApp\<lparr>previousTime := Some 123456\<rparr>
   \<and> stamina (gameLoop 123456 (resetStamina (gameLoop 40 (gameLoop 0 initialApp)))) =
       \<lparr>exhaustion = 100, action = 100\<rparr>
   \<and> previousTime_B initialApp_B = None
   \<and> 0 \<le> current_B (stamina_B initialApp_B)
   \<and> current_B (stamina_B initialApp_B) \<le> max_B (stamina_B initialApp_B)
   \<and> gameLoop_B 123456 initialApp_B = initialApp_B\<lparr>previousTime_B := Some 123456\<rparr>
   \<and> stamina_B (gameLoop_B 123456 (resetStamina_B initialApp_B)) =
       \<lparr>max_B = 100, current_B = 100\<rparr>"
  using first_frame_noop [of initialApp 123456 initialApp_B]
    first_frame_noop [of "gameLoop 40 (gameLoop 0 initialApp)" 123456 initialApp_B]
  by (simp add: run_simps)

text \<open>
  Against claim C5 as stated: in variant B, after frames at 0 and 1000 and a reset, the
  frame at 3000 charges two seconds to the reset state and lowers both values to 97.
\<close>

theorem step_after_reset_B_counterexample:
  "stamina_B (resetStamina_B (gameLoop_B 1000 (gameLoop_B 0 initialApp_B))) =
       \<lparr>max_B = 100, current_B = 100\<rparr>
   \<and> stamina_B (gameLoop_B 3000 (resetStamina_B (gameLoop_B 1000 (gameLoop_B 0 initialApp_B)))) =
       \<lparr>max_B = 97, current_B = 97\<rparr>
   \<and> stamina_B (gameLoop_B 3000 (resetStamina_B (gameLoop_B 1000 (gameLoop_B 0 initialApp_B))))
       \<noteq> stamina_B (resetStamina_B (gameLoop_B 1000 (gameLoop_B 0 initialApp_B)))"
  by (simp add: run_simps)

section \<open>The drain and recover scenario\<close>

text \<open>
  Claim C6, as amended. Variant B, from \<open>max = 100\<close> and \<open>current = 100\<close>, with a drain
  rate of 30, a recovery rate of 20 and a decay rate \<open>d \<le> 5\<close> of the maximum (the source's
  default 1.5 and no decay at all are such rates): a first frame at any \<open>t\<close>, the key
  pressed, and a frame one second later give \<open>current = 70\<close>; the key released and a frame
  another second later give \<open>current = 90\<close>.
\<close>

theorem drain_recover_scenario:
  assumes "d \<le> 5"
    and "s0 = initialApp_B\<lparr>config_B := \<lparr>maxStaminaDecay = d, currentStaminaDecay = 30,
                                        currentStaminaRecovery = 20\<rparr>\<rparr>"
  shows "stamina_B s0 = \<lparr>max_B = 100, current_B = 100\<rparr>
   \<and> current_B (stamina_B (run_B [Frame t, KeyDown ''Space'' False, Frame (t + 1000)] s0)) = 70
   \<and> current_B (stamina_B (run_B [Frame t, KeyDown ''Space'' False, Frame (t + 1000),
         KeyUp ''Space'', Frame (t + 2000)] s0)) = 90"
  using assms by (simp add: run_simps)

theorem drain_recover_scenario_witness:
  "(3 / 2 :: real) \<le> 5
   \<and> initialApp_B = initialApp_B\<lparr>config_B := \<lparr>maxStaminaDecay = 3 / 2, currentStaminaDecay = 30,
                                        currentStaminaRecovery = 20\<rparr>\<rparr>
   \<and> current_B (stamina_B (run_B [Frame 0, KeyDown ''Space'' False, Frame (0 + 1000)]
         initialApp_B)) = 70
   \<and> current_B (stamina_B (run_B [Frame 0, KeyDown ''Space'' False, Frame (0 + 1000),
         KeyUp ''Space'', Frame (0 + 2000)] initialApp_B)) = 90"
proof -
  have c: "initialApp_B = initialApp_B\<lparr>config_B := \<lparr>maxStaminaDecay = 3 / 2,
      currentStaminaDecay = 30, currentStaminaRecovery = 20\<rparr>\<rparr>"
    by (simp add: initialApp_B_def)
  have d: "(3 / 2 :: real) \<le> 5" by simp
  from drain_recover_scenario [OF d c, of 0] c d show ?thesis by blast
qed

text \<open>
  Against claim C6 as stated, which names no decay rate: with the decay slider at 10, the
  top of its range, the first second still gives \<open>current = 70\<close> under a maximum of 90,
  but after the second one the maximum has decayed to 80 and caps the recovery: the
  result is 80, not 90.
\<close>

theorem drain_recover_fast_decay_counterexample:
  "config_B (run_B [ConfigChange ''maxStaminaDecay'' 10] initialApp_B) =
       \<lparr>maxStaminaDecay = 10, currentStaminaDecay = 30, currentStaminaRecovery = 20\<rparr>
   \<and> stamina_B (run_B [ConfigChange ''maxStaminaDecay'' 10, Frame 0] initialApp_B) =
       \<lparr>max_B = 100, current_B = 100\<rparr>
   \<and> stamina_B (run_B [ConfigChange ''maxStaminaDecay'' 10, Frame 0,
         KeyDown ''Space'' False, Frame 1000] initialApp_B) =
       \<lparr>max_B = 90, current_B = 70\<rparr>
   \<and> stamina_B (run_B [ConfigChange ''maxStaminaDecay'' 10, Frame 0,
         KeyDown ''Space'' False, Frame 1000, KeyUp ''Space'', Frame 2000] initialApp_B) =
       \<lparr>max_B = 80, current_B = 80\<rparr>
   \<and> current_B (stamina_B (run_B [ConfigChange ''maxStaminaDecay'' 10, Frame 0,
         KeyDown ''Space'' False, Frame 1000, KeyUp ''Space'', Frame 2000] initialApp_B))
       \<noteq> 90"
  by (simp add: run_simps)

section \<open>Decay monotonicity\<close>

text \<open>
  Claim C7. Along a sequence of frames with the key released and a positive decay rate,
  the primary value never increases from one frame to the next, in both variants. The
  frames' timestamps do not decrease, starting from the baseline if one is set (the
  specification's standing assumption on the host's clock), and the run starts in a state
  whose primary value is not negative, as every reachable state's is.
\<close>

theorem decay_monotone:
  assumes "\<not> isSpacePressedRef s" and "0 < exhaustionDecay (config s)"
    and "0 \<le> exhaustion (stamina s)"
    and "sorted (case previousTime s of None \<Rightarrow> ts | Some p \<Rightarrow> p # ts)"
    and "\<not> isSpacePressedRef_B b" and "0 < maxStaminaDecay (config_B b)"
    and "0 \<le> max_B (stamina_B b)"
    and "sorted (case previousTime_B b of None \<Rightarrow> ts | Some p \<Rightarrow> p # ts)"
  shows "successively (\<lambda>x y. exhaustion (stamina y) \<le> exhaustion (stamina x)) (s # frames ts s)
     \<and> successively (\<lambda>x y. max_B (stamina_B y) \<le> max_B (stamina_B x)) (b # frames_B ts b)"
  using assms by (simp add: frames_nonincreasing frames_B_nonincreasing)

theorem decay_monotone_witness:
  "\<not> isSpacePressedRef initialApp \<and> 0 < exhaustionDecay (config initialApp)
   \<and> 0 \<le> exhaustion (stamina initialApp)
   \<and> sorted (case previousTime initialApp of None \<Rightarrow> [0, 2000, 6000]
              | Some p \<Rightarrow> p # [0, 2000, 6000])
   \<and> \<not> isSpacePressedRef_B initialApp_B \<and> 0 < maxStaminaDecay (config_B initialApp_B)
   \<and> 0 \<le> max_B (stamina_B initialApp_B)
   \<and> sorted (case previousTime_B initialApp_B of None \<Rightarrow> [0, 2000, 6000]
              | Some p \<Rightarrow> p # [0, 2000, 6000])
   \<and> map (\<lambda>x. exhaustion (stamina x)) (initialApp # frames [0, 2000, 6000] initialApp)
        = [100, 100, 99, 97]
   \<and> map (\<lambda>x. max_B (stamina_B x)) (initialApp_B # frames_B [0, 2000, 6000] initialApp_B)
        = [100, 100, 97, 91]
   \<and> successively (\<lambda>x y. exhaustion (stamina y) \<le> exhaustion (stamina x))
        (initialApp # frames [0, 2000, 6000] initialApp)
   \<and> successively (\<lambda>x y. max_B (stamina_B y) \<le> max_B (stamina_B x))
        (initialApp_B # frames_B [0, 2000, 6000] initialApp_B)"
  using decay_monotone [of initialApp "[0, 2000, 6000]" initialApp_B]
  by (simp add: run_simps)

section \<open>Reset is idempotent\<close>


text \<open>
  Claim C8. \<^verbatim>\<open>resetStamina\<close> is idempotent in both variants: resetting twice gives
  exactly the state (stamina and clock baseline) of resetting once, and a reset leaves
  the configuration and the input flag (state and ref) as they were.
\<close>

theorem reset_idempotent:
  "resetStamina (resetStamina s) = resetStamina s
   \<and> config (resetStamina s) = config s
   \<and> isSpacePressed (resetStamina s) = isSpacePressed s
   \<and> isSpacePressedRef (resetStamina s) = isSpacePressedRef s
   \<and> resetStamina_B (resetStamina_B b) = resetStamina_B b
   \<and> config_B (resetStamina_B b) = config_B b
   \<and> isSpacePressed_B (resetStamina_B b) = isSpacePressed_B b
   \<and> isSpacePressedRef_B (resetStamina_B b) = isSpacePressedRef_B b"
  by (simp add: resetStamina_def resetStamina_B_def)

section \<open>Configuration changes\<close>

text \<open>
  Claim C9. A configuration change that names a parameter sets the field of that name to
  the parsed value \<open>v\<close> and leaves every other field of the configuration as it was, in
  both variants; the component's configuration after the event is the handler's result.
\<close>

theorem config_change_frame:
  "(name = ''exhaustionDecay'' \<longrightarrow>
      exhaustionDecay (handleConfigChange name v c) = v
      \<and> actionStaminaDecay (handleConfigChange name v c) = actionStaminaDecay c)
   \<and> (name = ''actionStaminaDecay'' \<longrightarrow>
      actionStaminaDecay (handleConfigChange name v c) = v
      \<and> exhaustionDecay (handleConfigChange name v c) = exhaustionDecay c)
   \<and> (name = ''maxStaminaDecay'' \<longrightarrow>
      maxStaminaDecay (handleConfigChange_B name v cb) = v
      \<and> currentStaminaDecay (handleConfigChange_B name v cb) = currentStaminaDecay cb
      \<and> currentStaminaRecovery (handleConfigChange_B name v cb) = currentStaminaRecovery cb)
   \<and> (name = ''currentStaminaDecay'' \<longrightarrow>
      currentStaminaDecay (handleConfigChange_B name v cb) = v
      \<and> maxStaminaDecay (handleConfigChange_B name v cb) = maxStaminaDecay cb
      \<and> currentStaminaRecovery (handleConfigChange_B name v cb) = currentStaminaRecovery cb)
   \<and> (name = ''currentStaminaRecovery'' \<longrightarrow>
      currentStaminaRecovery (handleConfigChange_B name v cb) = v
      \<and> maxStaminaDecay (handleConfigChange_B name v cb) = maxStaminaDecay cb
      \<and> currentStaminaDecay (handleConfigChange_B name v cb) = currentStaminaDecay cb)
   \<and> config (dispatch (ConfigChange name v) s) = handleConfigChange name v (config s)
   \<and> config_B (dispatch_B (ConfigChange name v) b) = handleConfigChange_B name v (config_B b)"
  by (simp add: handleConfigChange_def handleConfigChange_B_def gameLoopCleanup_def
      gameLoopCleanup_B_def)

theorem config_change_frame_witness:
  "handleConfigChange ''exhaustionDecay'' 7 (config initialApp) =
      \<lparr>exhaustionDecay = 7, actionStaminaDecay = 3\<rparr>
   \<and> handleConfigChange ''actionStaminaDecay'' 7 (config initialApp) =
      \<lparr>exhaustionDecay = 1 / 2, actionStaminaDecay = 7\<rparr>
   \<and> handleConfigChange_B ''maxStaminaDecay'' 7 (config_B initialApp_B) =
      \<lparr>maxStaminaDecay = 7, currentStaminaDecay = 30, currentStaminaRecovery = 20\<rparr>
   \<and> handleConfigChange_B ''currentStaminaDecay'' 7 (config_B initialApp_B) =
      \<lparr>maxStaminaDecay = 3 / 2, currentStaminaDecay = 7, currentStaminaRecovery = 20\<rparr>
   \<and> handleConfigChange_B ''currentStaminaRecovery'' 7 (config_B initialApp_B) =
      \<lparr>maxStaminaDecay = 3 / 2, currentStaminaDecay = 30, currentStaminaRecovery = 7\<rparr>"
  using config_change_frame [of "''exhaustionDecay''" 7 "config initialApp"]
    config_change_frame [of "''actionStaminaDecay''" 7 "config initialApp"]
    config_change_frame [of "''maxStaminaDecay''" 7 _ "config_B initialApp_B"]
    config_change_frame [of "''currentStaminaDecay''" 7 _ "config_B initialApp_B"]
    config_change_frame [of "''currentStaminaRecovery''" 7 _ "config_B initialApp_B"]
  by (simp add: initialApp_def initialApp_B_def handleConfigChange_def handleConfigChange_B_def)

section \<open>The display ratio\<close>

text \<open>
  Claim C10. In variant A the percentage of action relative to exhaustion is 0 whenever
  the exhaustion is 0: the guard answers without dividing, so the result is always a
  number, never the outcome of a division by zero.
\<close>

theorem ratio_guard:
  "(exhaustion st = 0 \<longrightarrow> actionRelativeToExhaustionPercent st = Some 0)
   \<and> actionRelativeToExhaustionPercent st \<noteq> None"
  by (simp add: actionRelativeToExhaustionPercent_def jsDivide_def)

theorem ratio_guard_witness:
  "exhaustion \<lparr>exhaustion = 0, action = 0\<rparr> = 0
   \<and> actionRelativeToExhaustionPercent \<lparr>exhaustion = 0, action = 0\<rparr> = Some 0
   \<and> jsDivide 0 0 = None"
  using ratio_guard [of "\<lparr>exhaustion = 0, action = 0\<rparr>"]
  by (simp add: jsDivide_def)

end
